theory Spec2Isabelle
  imports Main "HOL-Library.Sublist"
begin

section \<open>Errors\<close>

text \<open>
  The error values of the plugin manager. The first four are the package-level
  variables of \<^verbatim>\<open>package plugins\<close>; the next four are the sentinels of
  \<^verbatim>\<open>backendplugin\<close>; \<open>EOF\<close>, \<open>Canceled\<close> and \<open>DeadlineExceeded\<close> are
  \<^verbatim>\<open>io.EOF\<close>, \<^verbatim>\<open>context.Canceled\<close> and \<^verbatim>\<open>context.DeadlineExceeded\<close>.
  \<open>New msg\<close> is \<^verbatim>\<open>errors.New(msg)\<close> (or a \<^verbatim>\<open>fmt.Errorf\<close> without \<^verbatim>\<open>%w\<close>),
  \<open>Wrap msg err\<close> is \<^verbatim>\<open>errutil.Wrap(msg, err)\<close> (or a \<^verbatim>\<open>fmt.Errorf\<close> with \<^verbatim>\<open>%w\<close>):
  an error that carries \<open>err\<close> in its chain.
\<close>

datatype error =
    ErrInstallCorePlugin
  | ErrUninstallCorePlugin
  | ErrUninstallOutsideOfPluginDir
  | ErrPluginNotInstalled
  | ErrPluginNotRegistered
  | ErrMethodNotImplemented
  | ErrPluginUnavailable
  | ErrHealthCheckFailed
  | EOF
  | Canceled
  | DeadlineExceeded
  | New string
  | Wrap string error

text \<open>\<^verbatim>\<open>errors.Is(err, target)\<close>: \<open>target\<close> is \<open>err\<close> or an error in its chain.\<close>

fun errors_Is :: "error \<Rightarrow> error \<Rightarrow> bool" where
  "errors_Is (Wrap msg err) target = (if Wrap msg err = target then True else errors_Is err target)"
| "errors_Is err target = (err = target)"

section \<open>Plugin handles and the registry\<close>

text \<open>
  The handle type \<^verbatim>\<open>plugins.PluginV2\<close> is declared outside the file; the functions
  modelled here read its fields \<^verbatim>\<open>ID\<close>, \<^verbatim>\<open>Type\<close> and \<^verbatim>\<open>PluginDir\<close> and call its
  methods. What a method returns is a field of the record: \<open>IsDecommissioned\<close> and
  \<open>IsExternalPlugin\<close> are the answers of the methods of the same name, and the
  \<open>call_\<close> fields are what the handle answers to \<^verbatim>\<open>Decommission\<close>, \<^verbatim>\<open>Stop\<close>,
  \<^verbatim>\<open>QueryData\<close>, \<^verbatim>\<open>CheckHealth\<close>, \<^verbatim>\<open>CollectMetrics\<close> and \<^verbatim>\<open>CallResource\<close> (for
  \<^verbatim>\<open>CallResource\<close>: the chunks it sends to the stream, and the error it returns).
  The records declared first are the values of the plugin SDK that the manager passes on:
  \<open>JSONData_KeepCookies\<close> is what \<^verbatim>\<open>json.Unmarshal\<close> makes of a data source's
  \<^verbatim>\<open>JSONData\<close>, and the header map of a \<^verbatim>\<open>CallResourceResponse\<close> is \<open>None\<close> when it
  is \<^verbatim>\<open>nil\<close>.
\<close>

record DataSourceInstanceSettings =
  URL :: string
  JSONData_KeepCookies :: "error + string list"

record PluginContext =
  PluginID :: string
  DataSourceInstanceSettings :: "DataSourceInstanceSettings option"

record QueryDataRequest =
  query_PluginContext :: PluginContext
  Queries :: "string list"

record QueryDataResponse =
  Responses :: "(string \<times> string) list"

record CheckHealthResult =
  health_Status :: int
  health_Message :: string

record CollectMetricsResult =
  PrometheusMetrics :: string

record CallResourceResponse =
  Status :: int
  Headers :: "(string \<times> string list) list option"
  Body :: string

record PluginV2 =
  ID :: string
  Type :: string
  PluginDir :: string
  IsExternalPlugin :: bool
  IsDecommissioned :: bool
  call_Decommission :: "error option"
  call_Stop :: "error option"
  call_QueryData :: "QueryDataRequest \<Rightarrow> QueryDataResponse option \<times> error option"
  call_CheckHealth :: "PluginContext \<Rightarrow> CheckHealthResult option \<times> error option"
  call_CollectMetrics :: "CollectMetricsResult option \<times> error option"
  call_CallResource :: "CallResourceResponse list \<times> error option"

text \<open>
  The manager. \<open>plugins\<close> is the map \<^verbatim>\<open>map[string]*plugins.PluginV2\<close>, as the
  list of its entries: \<open>map_of\<close> is the lookup, the order of the list is one
  order in which \<^verbatim>\<open>range\<close> may visit the map. \<open>requestValidator\<close> is what
  \<^verbatim>\<open>requestValidator.Validate(dsURL, req)\<close> returns for a data source URL, and
  \<open>pluginInstaller_Uninstall\<close> what \<^verbatim>\<open>pluginInstaller.Uninstall(ctx, dir)\<close> returns
  for a directory.
\<close>

record PluginManager =
  Cfg_PluginsPath :: string
  requestValidator :: "string \<Rightarrow> error option"
  pluginInstaller_Uninstall :: "string \<Rightarrow> error option"
  plugins :: "(string \<times> PluginV2) list"

definition Plugin :: "PluginManager \<Rightarrow> string \<Rightarrow> PluginV2 option" where
  "Plugin m pluginID =
     (case map_of (plugins m) pluginID of
        Some p \<Rightarrow> if IsDecommissioned p then None else Some p
      | None \<Rightarrow> None)"

definition PluginByType :: "PluginManager \<Rightarrow> string \<Rightarrow> string \<Rightarrow> PluginV2 option" where
  "PluginByType m pluginID pluginType =
     (case map_of (plugins m) pluginID of
        Some p \<Rightarrow> if IsDecommissioned p \<or> Type p \<noteq> pluginType then None else Some p
      | None \<Rightarrow> None)"

text \<open>
  \<^verbatim>\<open>Plugins(pluginTypes...)\<close>. The variable \<^verbatim>\<open>plugins.PluginTypes\<close> (all the
  types) is declared outside the file and is the parameter \<open>PluginTypes\<close>.
\<close>

definition Plugins :: "string list \<Rightarrow> PluginManager \<Rightarrow> string list \<Rightarrow> PluginV2 list" where
  "Plugins PluginTypes m pluginTypes =
     (let pluginTypes' = (if length pluginTypes = 0 then PluginTypes else pluginTypes);
          requestedTypes = set pluginTypes'
      in [p \<leftarrow> map snd (plugins m). Type p \<in> requestedTypes])"

definition isRegistered :: "PluginManager \<Rightarrow> string \<Rightarrow> bool" where
  "isRegistered m pluginID =
     (case Plugin m pluginID of
        None \<Rightarrow> False
      | Some p \<Rightarrow> \<not> IsDecommissioned p)"

section \<open>The request dispatcher\<close>

text \<open>
  The instrumentation wrappers (\<^verbatim>\<open>instrumentation.Instrument...\<close>) run the function
  they are given and return its error; they do not appear in the model. A Go result
  \<^verbatim>\<open>(*T, error)\<close> is a pair of options, \<open>None\<close> for \<^verbatim>\<open>nil\<close>.
\<close>

definition QueryData :: "PluginManager \<Rightarrow> QueryDataRequest \<Rightarrow> QueryDataResponse option \<times> error option" where
  "QueryData m req =
     (case Plugin m (PluginID (query_PluginContext req)) of
        None \<Rightarrow> (Some \<lparr>Responses = []\<rparr>, None)
      | Some plugin \<Rightarrow>
          (case call_QueryData plugin req of
             (resp, Some err) \<Rightarrow>
               if errors_Is err ErrMethodNotImplemented then (None, Some err)
               else if errors_Is err ErrPluginUnavailable then (None, Some err)
               else (None, Some (Wrap ''failed to query data'' err))
           | (resp, None) \<Rightarrow> (resp, None)))"

definition CollectMetrics :: "PluginManager \<Rightarrow> string \<Rightarrow> CollectMetricsResult option \<times> error option" where
  "CollectMetrics m pluginID =
     (case Plugin m pluginID of
        None \<Rightarrow> (None, Some ErrPluginNotRegistered)
      | Some p \<Rightarrow>
          (case call_CollectMetrics p of
             (resp, Some err) \<Rightarrow> (None, Some err)
           | (resp, None) \<Rightarrow> (resp, None)))"

definition dsURL_of :: "PluginContext \<Rightarrow> string" where
  "dsURL_of pCtx =
     (case DataSourceInstanceSettings pCtx of
        Some dis \<Rightarrow> URL dis
      | None \<Rightarrow> '''')"

definition CheckHealth :: "PluginManager \<Rightarrow> PluginContext \<Rightarrow> CheckHealthResult option \<times> error option" where
  "CheckHealth m pluginContext =
     (case requestValidator m (dsURL_of pluginContext) of
        Some err \<Rightarrow> (Some \<lparr>health_Status = 403, health_Message = ''Access denied''\<rparr>, None)
      | None \<Rightarrow>
          (case Plugin m (PluginID pluginContext) of
             None \<Rightarrow> (None, Some ErrPluginNotRegistered)
           | Some p \<Rightarrow>
               (case call_CheckHealth p pluginContext of
                  (resp, Some err) \<Rightarrow>
                    if errors_Is err ErrMethodNotImplemented then (None, Some err)
                    else if errors_Is err ErrPluginUnavailable then (None, Some err)
                    else (None, Some (Wrap ''failed to check plugin health'' ErrHealthCheckFailed))
                | (resp, None) \<Rightarrow> (resp, None))))"

section \<open>Uninstall\<close>

text \<open>
  What the manager does to its collaborators and to the handles, in the order it does
  it: the calls of the validator, of the installer and of a handle's methods, the
  answers written with \<^verbatim>\<open>reqCtx.JsonApiErr\<close>, and the log lines.
\<close>

datatype event =
    Validate string
  | JsonApiErr int string error
  | Plugin_Decommission string
  | Plugin_Stop string
  | Plugin_Start string
  | Plugin_CallResource string string
  | Installer_Uninstall string
  | Log_Debug string
  | Log_Warn string error
  | Log_Error string error

text \<open>
  Modelled from the spec: \<^verbatim>\<open>PluginV2.Decommission\<close> is declared outside the file.
  The specification has the lifecycle flag \<open>decommissioned\<close> go from false to true,
  once, when the handle is decommissioned; a call that fails returns its error.
\<close>

definition Decommission :: "PluginV2 \<Rightarrow> error option \<times> PluginV2" where
  "Decommission p =
     (case call_Decommission p of
        Some err \<Rightarrow> (Some err, p)
      | None \<Rightarrow> (None, p\<lparr>IsDecommissioned := True\<rparr>))"

text \<open>
  \<^verbatim>\<open>unregisterAndStop(ctx, p)\<close>. The handle \<open>p\<close> is a pointer into the map: 
  \<^verbatim>\<open>register\<close> stores a handle under its \<^verbatim>\<open>ID\<close>, so what \<^verbatim>\<open>Decommission\<close> does to
  \<open>p\<close> is done to the entry of key \<open>ID p\<close>. \<^verbatim>\<open>delete(m.plugins, p.ID)\<close> removes
  that entry.
\<close>

definition store_handle :: "PluginV2 \<Rightarrow> (string \<times> PluginV2) list \<Rightarrow> (string \<times> PluginV2) list" where
  "store_handle p ps = map (\<lambda>(k, q). if k = ID p then (k, p) else (k, q)) ps"

definition unregisterAndStop :: "PluginManager \<Rightarrow> PluginV2 \<Rightarrow> error option \<times> PluginManager \<times> event list" where
  "unregisterAndStop m p =
     (case Decommission p of
        (Some err, p') \<Rightarrow>
          (Some err, m\<lparr>plugins := store_handle p' (plugins m)\<rparr>,
           [Log_Debug ''Stopping plugin process'', Plugin_Decommission (ID p)])
      | (None, p') \<Rightarrow>
          (case call_Stop p' of
             Some err \<Rightarrow>
               (Some err, m\<lparr>plugins := store_handle p' (plugins m)\<rparr>,
                [Log_Debug ''Stopping plugin process'', Plugin_Decommission (ID p), Plugin_Stop (ID p)])
           | None \<Rightarrow>
               (None, m\<lparr>plugins := filter (\<lambda>(k, q). k \<noteq> ID p) (store_handle p' (plugins m))\<rparr>,
                [Log_Debug ''Stopping plugin process'', Plugin_Decommission (ID p), Plugin_Stop (ID p),
                 Log_Debug ''Plugin unregistered''])))"

text \<open>
  \<^verbatim>\<open>Uninstall(ctx, pluginID)\<close>. \<^verbatim>\<open>filepath.Rel\<close> belongs to the Go standard library
  and is the parameter \<open>Rel\<close>: \<open>Rel basepath targpath\<close> is \<open>Inr\<close> of the relative
  path, or \<open>Inl\<close> of the error. \<^verbatim>\<open>strings.HasPrefix(path, "../")\<close> is \<open>prefix\<close>
  (the separator of the Unix build).
\<close>

definition Uninstall ::
  "(string \<Rightarrow> string \<Rightarrow> error + string) \<Rightarrow> PluginManager \<Rightarrow> string \<Rightarrow>
   error option \<times> PluginManager \<times> event list" where
  "Uninstall Rel m pluginID =
     (case Plugin m pluginID of
        None \<Rightarrow> (Some ErrPluginNotInstalled, m, [])
      | Some plugin \<Rightarrow>
          if \<not> IsExternalPlugin plugin then (Some ErrUninstallCorePlugin, m, [])
          else
            (case Rel (Cfg_PluginsPath m) (PluginDir plugin) of
               Inl err \<Rightarrow> (Some ErrUninstallOutsideOfPluginDir, m, [])
             | Inr path \<Rightarrow>
                 if prefix ''../'' path then (Some ErrUninstallOutsideOfPluginDir, m, [])
                 else if isRegistered m pluginID then
                   (case unregisterAndStop m plugin of
                      (Some err, m', evs) \<Rightarrow> (Some err, m', evs)
                    | (None, m', evs) \<Rightarrow>
                        (pluginInstaller_Uninstall m' (PluginDir plugin), m',
                         evs @ [Installer_Uninstall (PluginDir plugin)]))
                 else
                   (pluginInstaller_Uninstall m (PluginDir plugin), m,
                    [Installer_Uninstall (PluginDir plugin)])))"

subsection \<open>The standard library's \<^verbatim>\<open>filepath.Rel\<close> on absolute paths, for the examples\<close>

text \<open>
  \<^verbatim>\<open>filepath.Rel\<close> of the Unix build (separator \<open>/\<close>, no volume names) for two
  absolute paths: both are cleaned (empty and \<open>.\<close> elements dropped, \<open>..\<close> removing
  the element before it, or nothing at the root), the common leading elements are
  skipped, and the answer is one \<open>..\<close> for each element left of the base, followed
  by the elements left of the target; \<open>.\<close> when the cleaned paths are equal. The
  library returns an error when exactly one of the paths is absolute. Its answer for two
  relative paths is not modelled: the configured plugins directory and a handle's
  directory are absolute, and the definition returns an error there. This is library
  code, not code of the repository; the theorems about \<open>Uninstall\<close> hold for every
  \<open>Rel\<close>, and the definition only serves to evaluate \<open>Uninstall\<close> on concrete
  directories.
\<close>

fun elements :: "string \<Rightarrow> string list" where
  "elements [] = [[]]"
| "elements (c # cs) =
     (if c = CHR ''/'' then [] # elements cs
      else (case elements cs of [] \<Rightarrow> [[c]] | e # es \<Rightarrow> (c # e) # es))"

fun join :: "string list \<Rightarrow> string" where
  "join [] = []"
| "join [e] = e"
| "join (e # es) = e @ ''/'' @ join es"

definition clean_element :: "string list \<Rightarrow> string \<Rightarrow> string list" where
  "clean_element out e =
     (if e = [] \<or> e = ''.'' then out
      else if e = ''..'' then butlast out
      else out @ [e])"

definition clean_elements :: "string \<Rightarrow> string list" where
  "clean_elements path = foldl clean_element [] (elements path)"

fun drop_common :: "string list \<Rightarrow> string list \<Rightarrow> string list \<times> string list" where
  "drop_common (b # bs) (t # ts) = (if b = t then drop_common bs ts else (b # bs, t # ts))"
| "drop_common bs ts = (bs, ts)"

definition rooted :: "string \<Rightarrow> bool" where
  "rooted path = (path \<noteq> [] \<and> hd path = CHR ''/'')"

definition filepath_Rel :: "string \<Rightarrow> string \<Rightarrow> error + string" where
  "filepath_Rel basepath targpath =
     (if rooted basepath \<and> rooted targpath then
        (let base = clean_elements basepath;
             targ = clean_elements targpath
         in if targ = base then Inr ''.''
            else
              (case drop_common base targ of
                 (bs, ts) \<Rightarrow>
                   if bs \<noteq> [] then Inr (join (replicate (length bs) ''..'' @ ts))
                   else Inr (join ts)))
      else Inl (New (''Rel: can't make '' @ targpath @ '' relative to '' @ basepath)))"

section \<open>The resource response stream\<close>

text \<open>
  \<^verbatim>\<open>callResourceResponseStream\<close>: a context, an unbuffered channel and the flag
  \<^verbatim>\<open>closed\<close>. \<open>ctx_Err\<close> is \<^verbatim>\<open>s.ctx.Err()\<close>, \<open>None\<close> until the context is done.
  \<^verbatim>\<open>Close\<close> closes the channel and sets the flag in one step, so the flag is also the
  state of the channel. An unbuffered channel hands a value over only when a sender and
  a receiver meet; \<open>senders\<close> are the chunks of the calls of \<^verbatim>\<open>Send\<close> that are blocked
  in their \<^verbatim>\<open>select\<close>, \<open>receivers\<close> counts the blocked calls of \<^verbatim>\<open>Recv\<close>.
\<close>

record callResourceResponseStream =
  ctx_Err :: "error option"
  closed :: bool
  senders :: "CallResourceResponse list"
  receivers :: nat

definition newCallResourceResponseStream :: "error option \<Rightarrow> callResourceResponseStream" where
  "newCallResourceResponseStream ctx = \<lparr>ctx_Err = ctx, closed = False, senders = [], receivers = 0\<rparr>"

text \<open>
  A call returns at once or blocks. A step can also release blocked calls of the other
  side: \<open>Recv_returns\<close> and \<open>Send_returns\<close> are what such a call then returns, and a
  \<^verbatim>\<open>Send\<close> blocked on a channel that is closed panics.
\<close>

datatype 'a outcome = Returns 'a | Blocks

datatype wakeup =
    Recv_returns "CallResourceResponse option" "error option"
  | Send_returns "error option"
  | Send_panics

text \<open>
  \<^verbatim>\<open>Send\<close> and \<^verbatim>\<open>Recv\<close>. A \<^verbatim>\<open>select\<close> takes one of the cases that can proceed, and
  blocks when none can. When both cases can proceed Go chooses at random; the choice is
  the parameter \<open>ctx_first\<close> (true: the case \<^verbatim>\<open><-s.ctx.Done()\<close> is taken).
\<close>

definition Send ::
  "bool \<Rightarrow> callResourceResponseStream \<Rightarrow> CallResourceResponse \<Rightarrow>
   error option outcome \<times> wakeup list \<times> callResourceResponseStream" where
  "Send ctx_first s res =
     (if closed s then (Returns (Some (New ''cannot send to a closed stream'')), [], s)
      else if ctx_Err s \<noteq> None \<and> (ctx_first \<or> receivers s = 0)
        then (Returns (Some (New ''cancelled'')), [], s)
      else if receivers s \<noteq> 0
        then (Returns None, [Recv_returns (Some res) None], s\<lparr>receivers := receivers s - 1\<rparr>)
      else (Blocks, [], s\<lparr>senders := senders s @ [res]\<rparr>))"

definition Recv ::
  "bool \<Rightarrow> callResourceResponseStream \<Rightarrow>
   (CallResourceResponse option \<times> error option) outcome \<times> wakeup list \<times> callResourceResponseStream" where
  "Recv ctx_first s =
     (if ctx_Err s \<noteq> None \<and> (ctx_first \<or> (senders s = [] \<and> \<not> closed s))
        then (Returns (None, ctx_Err s), [], s)
      else
        (case senders s of
           res # rest \<Rightarrow> (Returns (Some res, None), [Send_returns None], s\<lparr>senders := rest\<rparr>)
         | [] \<Rightarrow>
             if closed s then (Returns (None, Some EOF), [], s)
             else (Blocks, [], s\<lparr>receivers := receivers s + 1\<rparr>)))"

definition Close ::
  "callResourceResponseStream \<Rightarrow> error option \<times> wakeup list \<times> callResourceResponseStream" where
  "Close s =
     (if closed s then (Some (New ''cannot close a closed stream''), [], s)
      else
        (None,
         replicate (receivers s) (Recv_returns None (Some EOF)) @ map (\<lambda>res. Send_panics) (senders s),
         s\<lparr>closed := True, senders := [], receivers := 0\<rparr>))"

text \<open>
  The context of the stream ends with the error \<open>err\<close> (\<^verbatim>\<open>context.Canceled\<close> when
  it is cancelled): every blocked call takes its case \<^verbatim>\<open><-s.ctx.Done()\<close>.
\<close>

definition ctx_Done ::
  "error \<Rightarrow> callResourceResponseStream \<Rightarrow> wakeup list \<times> callResourceResponseStream" where
  "ctx_Done err s =
     (if ctx_Err s \<noteq> None then ([], s)
      else
        (replicate (receivers s) (Recv_returns None (Some err)) @
           map (\<lambda>res. Send_returns (Some (New ''cancelled''))) (senders s),
         s\<lparr>ctx_Err := Some err, senders := [], receivers := 0\<rparr>))"

text \<open>
  The streams that the operations produce from a new stream: no call stays blocked
  once the context is done or the channel is closed, and senders and receivers are
  never blocked together.
\<close>

definition stream_inv :: "callResourceResponseStream \<Rightarrow> bool" where
  "stream_inv s =
     ((senders s = [] \<and> receivers s = 0) \<or>
      (ctx_Err s = None \<and> \<not> closed s \<and> (senders s = [] \<or> receivers s = 0)))"

inductive reachable :: "callResourceResponseStream \<Rightarrow> bool" where
  new_stream: "reachable (newCallResourceResponseStream ctx)"
| after_Send: "reachable s \<Longrightarrow> reachable (snd (snd (Send ctx_first s res)))"
| after_Recv: "reachable s \<Longrightarrow> reachable (snd (snd (Recv ctx_first s)))"
| after_Close: "reachable s \<Longrightarrow> reachable (snd (snd (Close s)))"
| after_ctx_Done: "reachable s \<Longrightarrow> reachable (snd (ctx_Done err s))"

section \<open>The relay of a resource call\<close>

text \<open>
  The \<^verbatim>\<open>http.ResponseWriter\<close>, as the calls made on it, in order. \<open>Write_err\<close> is
  what \<^verbatim>\<open>w.Write\<close> returns for the bytes it is given, \<open>is_Flusher\<close> whether the
  writer is an \<^verbatim>\<open>http.Flusher\<close>.
\<close>

datatype writer_call =
    Header_Add string string
  | WriteHeader int
  | Write string
  | Flush

record ResponseWriter =
  calls :: "writer_call list"
  Write_err :: "string \<Rightarrow> error option"
  is_Flusher :: bool

text \<open>
  The header commit of the first chunk. \<^verbatim>\<open>resp.Headers\<close> is a map from a header
  name to its values, as the list of its entries; the order of the list is one order
  in which \<^verbatim>\<open>range\<close> may visit the map.
\<close>

definition default_Content_Type :: "(string \<times> string list) list \<Rightarrow> (string \<times> string list) list" where
  "default_Content_Type headers =
     (if map_of headers ''Content-Type'' = None
      then headers @ [(''Content-Type'', [''application/json''])]
      else headers)"

definition header_calls :: "(string \<times> string list) list \<Rightarrow> writer_call list" where
  "header_calls headers =
     concat (map (\<lambda>(k, values). if k = ''Set-Cookie'' then [] else map (Header_Add k) values) headers)"

definition commit_headers :: "CallResourceResponse \<Rightarrow> writer_call list" where
  "commit_headers resp =
     (case Headers resp of
        None \<Rightarrow> []
      | Some headers \<Rightarrow> header_calls (default_Content_Type headers) @ [WriteHeader (Status resp)])"

text \<open>
  \<^verbatim>\<open>flushStream\<close>. The loop calls \<^verbatim>\<open>stream.Recv()\<close> until it returns an error; what
  the successive calls return is the list \<open>recvs\<close>, \<open>Inl err\<close> for \<^verbatim>\<open>(nil, err)\<close>
  and \<open>Inr resp\<close> for \<^verbatim>\<open>(resp, nil)\<close>. When the list ends before an error, \<^verbatim>\<open>Recv\<close>
  does not return again and neither does the loop: the result is \<open>None\<close>.
  \<open>processedStreams\<close> is the counter of the loop; it counts chunks of one response and
  is a natural number here. The result is the returned error, the stream, the writer
  and the lines logged.
\<close>

fun flushStream_loop ::
  "nat \<Rightarrow> (error + CallResourceResponse) list \<Rightarrow> callResourceResponseStream \<Rightarrow> ResponseWriter \<Rightarrow>
   (error option \<times> callResourceResponseStream \<times> ResponseWriter \<times> event list) option" where
  "flushStream_loop processedStreams [] stream w = None"
| "flushStream_loop processedStreams (Inl err # recvs) stream w =
     (if errors_Is err EOF then
        (if processedStreams = 0
         then Some (Some (New ''received empty resource response''), stream, w, [])
         else Some (None, stream, w, []))
      else if processedStreams = 0
        then Some (Some (Wrap ''failed to receive response from resource call'' err), stream, w, [])
      else
        (case Close stream of
           (cerr, wakeups, stream') \<Rightarrow>
             Some (cerr, stream', w, [Log_Error ''Failed to receive response from resource call'' err])))"
| "flushStream_loop processedStreams (Inr resp # recvs) stream w =
     (let w1 = (if processedStreams = 0 \<and> Headers resp \<noteq> None
                then w\<lparr>calls := calls w @ commit_headers resp\<rparr> else w);
          w2 = w1\<lparr>calls := calls w1 @ [Write (Body resp)]\<rparr>;
          logged = (case Write_err w (Body resp) of
                      Some err \<Rightarrow> [Log_Error ''Failed to write resource response'' err]
                    | None \<Rightarrow> []);
          w3 = (if is_Flusher w then w2\<lparr>calls := calls w2 @ [Flush]\<rparr> else w2)
      in (case flushStream_loop (processedStreams + 1) recvs stream w3 of
            None \<Rightarrow> None
          | Some (err, stream', w', logs) \<Rightarrow> Some (err, stream', w', logged @ logs)))"

definition flushStream ::
  "(error + CallResourceResponse) list \<Rightarrow> callResourceResponseStream \<Rightarrow> ResponseWriter \<Rightarrow>
   (error option \<times> callResourceResponseStream \<times> ResponseWriter \<times> event list) option" where
  "flushStream recvs stream w = flushStream_loop 0 recvs stream w"







section \<open>CallResource\<close>

text \<open>
  The inbound request: what the manager reads of \<^verbatim>\<open>*http.Request\<close>. \<open>ReadAll_Body\<close>
  is what \<^verbatim>\<open>ioutil.ReadAll(req.Body)\<close> returns. \<^verbatim>\<open>url.Parse\<close> belongs to the standard
  library and is the parameter \<open>url_Parse\<close> of \<open>CallResource\<close>.
\<close>

record url_URL =
  Path :: string
  RawQuery :: string
  url_String :: string

record http_Request =
  Method :: string
  req_URL :: url_URL
  ReadAll_Body :: "error + string"

record ReqContext =
  Req :: http_Request
  Resp :: ResponseWriter

definition handleCallResourceError :: "error \<Rightarrow> event list" where
  "handleCallResourceError err =
     (if errors_Is err ErrPluginUnavailable then [JsonApiErr 503 ''Plugin unavailable'' err]
      else if errors_Is err ErrMethodNotImplemented then [JsonApiErr 404 ''Not found'' err]
      else [JsonApiErr 500 ''Failed to call resource'' err])"

text \<open>
  The function that \<^verbatim>\<open>callResourceInternal\<close> hands to the instrumentation: the
  plugin's \<^verbatim>\<open>CallResource\<close> runs against a new stream while \<^verbatim>\<open>flushStream\<close> drains
  it. The model is the run in which the context of the request is not cancelled:
  the plugin's chunks \<open>chunks\<close> are received one by one, the plugin returns \<open>perr\<close>,
  and the deferred \<^verbatim>\<open>stream.Close()\<close> then makes the last \<^verbatim>\<open>Recv\<close> return
  \<^verbatim>\<open>io.EOF\<close>. The statement \<^verbatim>\<open>return flushStreamErr\<close> reads the variable before that
  deferred call runs, when \<^verbatim>\<open>flushStream\<close> has not returned yet: it reads \<^verbatim>\<open>nil\<close>.
\<close>

definition relay :: "PluginV2 \<Rightarrow> string \<Rightarrow> ResponseWriter \<Rightarrow> error option \<times> ResponseWriter \<times> event list" where
  "relay p url w =
     (case call_CallResource p of
        (chunks, perr) \<Rightarrow>
          (case Close (newCallResourceResponseStream None) of
             (cerr, wakeups, stream) \<Rightarrow>
               (case flushStream (map Inr chunks @ [Inl EOF]) stream w of
                  None \<Rightarrow> (perr, w, [Plugin_CallResource (ID p) url])
                | Some (flushStreamErr, stream', w', logs) \<Rightarrow>
                    ((case perr of Some err \<Rightarrow> Some err | None \<Rightarrow> None), w',
                     Plugin_CallResource (ID p) url # logs))))"

text \<open>
  \<^verbatim>\<open>callResourceInternal\<close>. The rewriting of the request's headers
  (\<^verbatim>\<open>proxyutil.ClearCookieHeader\<close>, \<^verbatim>\<open>proxyutil.PrepareProxyRequest\<close>) is done by
  code outside the file and changes only the headers handed to the plugin, which the
  model does not carry.
\<close>

definition callResourceInternal ::
  "PluginManager \<Rightarrow> ResponseWriter \<Rightarrow> http_Request \<Rightarrow> PluginContext \<Rightarrow>
   error option \<times> ResponseWriter \<times> event list" where
  "callResourceInternal m w req pCtx =
     (case Plugin m (PluginID pCtx) of
        None \<Rightarrow> (Some ErrPluginNotRegistered, w, [])
      | Some p \<Rightarrow>
          (let logged =
                 (case DataSourceInstanceSettings pCtx of
                    None \<Rightarrow> []
                  | Some dis \<Rightarrow>
                      (case JSONData_KeepCookies dis of
                         Inl err \<Rightarrow>
                           [Log_Error ''Failed to to unpack JSONData in datasource instance settings'' err]
                       | Inr keepCookies \<Rightarrow> []))
           in (case ReadAll_Body req of
                 Inl err \<Rightarrow> (Some (Wrap ''failed to read request body'' err), w, logged)
               | Inr body \<Rightarrow>
                   (case relay p (url_String (req_URL req)) w of
                      (err, w', evs) \<Rightarrow> (err, w', logged @ evs)))))"

definition CallResource ::
  "(string \<Rightarrow> error + url_URL) \<Rightarrow> PluginManager \<Rightarrow> PluginContext \<Rightarrow> ReqContext \<Rightarrow> string \<Rightarrow>
   event list \<times> ResponseWriter" where
  "CallResource url_Parse m pCtx reqCtx path =
     (let dsURL = dsURL_of pCtx
      in (case requestValidator m dsURL of
            Some err \<Rightarrow> ([Validate dsURL, JsonApiErr 403 ''Access denied'' err], Resp reqCtx)
          | None \<Rightarrow>
              (let clonedReq = Req reqCtx;
                   rawURL = (if RawQuery (req_URL clonedReq) \<noteq> []
                             then path @ ''?'' @ RawQuery (req_URL clonedReq) else path)
               in (case url_Parse rawURL of
                     Inl err \<Rightarrow> (Validate dsURL # handleCallResourceError err, Resp reqCtx)
                   | Inr urlPath \<Rightarrow>
                       (case callResourceInternal m (Resp reqCtx) (clonedReq\<lparr>req_URL := urlPath\<rparr>) pCtx of
                          (Some err, w', evs) \<Rightarrow>
                            (Validate dsURL # evs @ handleCallResourceError err, w')
                        | (None, w', evs) \<Rightarrow> (Validate dsURL # evs, w'))))))"

text \<open>Whether a trace holds a call of a plugin's \<^verbatim>\<open>CallResource\<close>, or of the validator.\<close>

fun is_plugin_call :: "event \<Rightarrow> bool" where
  "is_plugin_call (Plugin_CallResource pluginID url) = True"
| "is_plugin_call ev = False"

fun is_validate :: "event \<Rightarrow> bool" where
  "is_validate (Validate dsURL) = True"
| "is_validate ev = False"

section \<open>The crash watch\<close>

text \<open>
  \<^verbatim>\<open>restartKilledProcess\<close>. Each turn of the loop waits in a \<^verbatim>\<open>select\<close> for the
  context or for the ticker; what it then sees is a \<open>watch_event\<close>. \<open>Ctx_Done err\<close>:
  the case \<^verbatim>\<open><-ctx.Done()\<close> is taken and \<^verbatim>\<open>ctx.Err()\<close> is \<open>err\<close>.
  \<open>Tick decommissioned exited started\<close>: the ticker fires; \<open>decommissioned\<close> and
  \<open>exited\<close> are what \<^verbatim>\<open>p.IsDecommissioned()\<close> and \<^verbatim>\<open>p.Exited()\<close> answer at that
  moment and \<open>started\<close> what \<^verbatim>\<open>p.Start(ctx)\<close> returns if it is called. The result is
  what the function returns, \<open>None\<close> when the events end while the loop still waits,
  and the calls made on the handle with the lines logged.
\<close>

datatype watch_event =
    Ctx_Done "error option"
  | Tick bool bool "error option"

fun restartKilledProcess :: "PluginV2 \<Rightarrow> watch_event list \<Rightarrow> error option option \<times> event list" where
  "restartKilledProcess p [] = (None, [])"
| "restartKilledProcess p (Ctx_Done err # evs) =
     (case err of
        Some e \<Rightarrow> if \<not> errors_Is e Canceled then (Some (Some e), []) else (Some None, [])
      | None \<Rightarrow> (Some None, []))"
| "restartKilledProcess p (Tick decommissioned exited started # evs) =
     (if decommissioned then (Some None, [Log_Debug ''Plugin decommissioned''])
      else if \<not> exited then restartKilledProcess p evs
      else
        (case restartKilledProcess p evs of
           (result, trace) \<Rightarrow>
             (result,
              [Log_Debug ''Restarting plugin'', Plugin_Start (ID p)] @
              (case started of
                 Some err \<Rightarrow> [Log_Error ''Failed to restart plugin'' err]
               | None \<Rightarrow> [Log_Debug ''Plugin restarted'']) @
              trace)))"

text \<open>
  For the statements about the crash watch: the ticks that see the handle exited and
  not decommissioned, those of them whose \<^verbatim>\<open>Start\<close> fails, the events that end the
  loop, and the calls of \<^verbatim>\<open>Start\<close> and the restart failures logged in a trace.
\<close>

fun sees_exited :: "watch_event \<Rightarrow> bool" where
  "sees_exited (Tick decommissioned exited started) = (\<not> decommissioned \<and> exited)"
| "sees_exited (Ctx_Done err) = False"

fun start_fails :: "watch_event \<Rightarrow> bool" where
  "start_fails (Tick decommissioned exited started) = (\<not> decommissioned \<and> exited \<and> started \<noteq> None)"
| "start_fails (Ctx_Done err) = False"

fun keeps_polling :: "watch_event \<Rightarrow> bool" where
  "keeps_polling (Tick decommissioned exited started) = (\<not> decommissioned)"
| "keeps_polling (Ctx_Done err) = False"

fun is_Start :: "event \<Rightarrow> bool" where
  "is_Start (Plugin_Start pluginID) = True"
| "is_Start ev = False"

fun is_restart_failure :: "event \<Rightarrow> bool" where
  "is_restart_failure (Log_Error msg err) = (msg = ''Failed to restart plugin'')"
| "is_restart_failure ev = False"

section \<open>Example values\<close>

text \<open>
  An external data source under the configured plugins directory, and
  a manager that holds the given registry, whose validator accepts every request and
  whose installer removes every directory without error.
\<close>

definition example_plugin :: PluginV2 where
  "example_plugin =
     \<lparr>ID = ''test-datasource'', Type = ''datasource'',
      PluginDir = ''/var/lib/grafana/plugins/test-datasource'',
      IsExternalPlugin = True, IsDecommissioned = False,
      call_Decommission = None, call_Stop = None,
      call_QueryData = (\<lambda>req. (Some \<lparr>Responses = [(''A'', ''frame'')]\<rparr>, None)),
      call_CheckHealth = (\<lambda>pCtx. (Some \<lparr>health_Status = 1, health_Message = ''OK''\<rparr>, None)),
      call_CollectMetrics = (Some \<lparr>PrometheusMetrics = ''up 1''\<rparr>, None),
      call_CallResource = ([], None)\<rparr>"

definition example_manager :: "(string \<times> PluginV2) list \<Rightarrow> PluginManager" where
  "example_manager ps =
     \<lparr>Cfg_PluginsPath = ''/var/lib/grafana/plugins'',
      requestValidator = (\<lambda>dsURL. None),
      pluginInstaller_Uninstall = (\<lambda>dir. None),
      plugins = ps\<rparr>"

definition example_context :: PluginContext where
  "example_context = \<lparr>PluginID = ''test-datasource'', DataSourceInstanceSettings = None\<rparr>"

definition example_query :: QueryDataRequest where
  "example_query = \<lparr>query_PluginContext = example_context, Queries = [''A'']\<rparr>"

definition example_writer :: ResponseWriter where
  "example_writer = \<lparr>calls = [], Write_err = (\<lambda>bytes. None), is_Flusher = True\<rparr>"

definition example_request :: ReqContext where
  "example_request =
     \<lparr>Req = \<lparr>Method = ''GET'',
              req_URL = \<lparr>Path = ''/api/plugins/test-datasource/resources/test'', RawQuery = [],
                         url_String = ''/api/plugins/test-datasource/resources/test''\<rparr>,
              ReadAll_Body = Inr []\<rparr>,
      Resp = example_writer\<rparr>"

definition example_url_Parse :: "string \<Rightarrow> error + url_URL" where
  "example_url_Parse rawURL = Inr \<lparr>Path = rawURL, RawQuery = [], url_String = rawURL\<rparr>"


section \<open>Lookups and decommissioned handles\<close>

lemma Plugin_decommissioned:
  "map_of (plugins m) pluginID = Some p \<Longrightarrow> IsDecommissioned p \<Longrightarrow> Plugin m pluginID = None"
  by (simp add: Plugin_def)

lemma PluginByType_decommissioned:
  "map_of (plugins m) pluginID = Some p \<Longrightarrow> IsDecommissioned p \<Longrightarrow>
   PluginByType m pluginID pluginType = None"
  by (simp add: PluginByType_def)

lemma Plugin_None_iff:
  "Plugin m pluginID = None \<longleftrightarrow>
   (map_of (plugins m) pluginID = None \<or>
    (\<exists>p. map_of (plugins m) pluginID = Some p \<and> IsDecommissioned p))"
  by (auto simp: Plugin_def split: option.splits)

lemma Plugins_member:
  "p \<in> set (Plugins PluginTypes m pluginTypes) \<longleftrightarrow>
   p \<in> snd ` set (plugins m) \<and>
   Type p \<in> set (if pluginTypes = [] then PluginTypes else pluginTypes)"
  by (auto simp: Plugins_def Let_def)

text \<open>
  \<^verbatim>\<open>Plugins\<close> does not ask \<^verbatim>\<open>IsDecommissioned\<close>: every entry of the map whose
  type is requested is in the list, decommissioned or not.
\<close>

lemma Plugins_keeps_decommissioned:
  "(pluginID, p) \<in> set (plugins m) \<Longrightarrow> Type p \<in> set pluginTypes \<Longrightarrow>
   p \<in> set (Plugins PluginTypes m pluginTypes)"
  by (force simp: Plugins_member)

text \<open>
  Claim C1. A handle that is in the registry map and decommissioned is to be absent
  from \<^verbatim>\<open>Plugin\<close>, from \<^verbatim>\<open>PluginByType\<close> and from the list of \<^verbatim>\<open>Plugins\<close>. The two
  lookups return \<^verbatim>\<open>nil\<close> for it; \<^verbatim>\<open>Plugins\<close> still lists it. Evaluated on the
  registry that holds the one decommissioned data source \<open>test-datasource\<close>.
\<close>

theorem C1_Plugins_lists_decommissioned:
  "Plugin (example_manager [(''test-datasource'', example_plugin\<lparr>IsDecommissioned := True\<rparr>)])
     ''test-datasource'' = None \<and>
   PluginByType (example_manager [(''test-datasource'', example_plugin\<lparr>IsDecommissioned := True\<rparr>)])
     ''test-datasource'' ''datasource'' = None \<and>
   Plugins [''datasource'', ''panel'', ''app'', ''renderer'']
     (example_manager [(''test-datasource'', example_plugin\<lparr>IsDecommissioned := True\<rparr>)])
     [''datasource''] = [example_plugin\<lparr>IsDecommissioned := True\<rparr>] \<and>
   Plugins [''datasource'', ''panel'', ''app'', ''renderer'']
     (example_manager [(''test-datasource'', example_plugin\<lparr>IsDecommissioned := True\<rparr>)])
     [] = [example_plugin\<lparr>IsDecommissioned := True\<rparr>]"
  by (simp add: Plugin_def PluginByType_def Plugins_def example_manager_def example_plugin_def)

section \<open>Dispatch to an absent plugin\<close>

text \<open>
  Claim C8. For a plugin id that is absent (not in the registry map, or in it with a
  decommissioned handle), \<^verbatim>\<open>QueryData\<close> returns the empty response and no error,
  \<^verbatim>\<open>CollectMetrics\<close> fails with \<^verbatim>\<open>ErrPluginNotRegistered\<close>, and \<^verbatim>\<open>CheckHealth\<close>, once
  the validator has accepted the request, fails with \<^verbatim>\<open>ErrPluginNotRegistered\<close>.
\<close>

theorem C8_absent_plugin:
  assumes "map_of (plugins m) pluginID = None \<or>
           (\<exists>p. map_of (plugins m) pluginID = Some p \<and> IsDecommissioned p)"
  shows "(PluginID (query_PluginContext req) = pluginID \<longrightarrow>
            QueryData m req = (Some \<lparr>Responses = []\<rparr>, None)) \<and>
         CollectMetrics m pluginID = (None, Some ErrPluginNotRegistered) \<and>
         (PluginID pCtx = pluginID \<and> requestValidator m (dsURL_of pCtx) = None \<longrightarrow>
            CheckHealth m pCtx = (None, Some ErrPluginNotRegistered))"
proof -
  from assms have absent: "Plugin m pluginID = None"
    by (simp add: Plugin_None_iff)
  have q: "PluginID (query_PluginContext req) = pluginID \<longrightarrow>
             QueryData m req = (Some \<lparr>Responses = []\<rparr>, None)"
    using absent by (simp add: QueryData_def)
  have c: "CollectMetrics m pluginID = (None, Some ErrPluginNotRegistered)"
    using absent by (simp add: CollectMetrics_def)
  have h: "PluginID pCtx = pluginID \<and> requestValidator m (dsURL_of pCtx) = None \<longrightarrow>
             CheckHealth m pCtx = (None, Some ErrPluginNotRegistered)"
    using absent by (auto simp: CheckHealth_def)
  from q c h show ?thesis by blast
qed

theorem C8_absent_plugin_witness:
  "QueryData (example_manager [(''test-datasource'', example_plugin\<lparr>IsDecommissioned := True\<rparr>)])
     example_query = (Some \<lparr>Responses = []\<rparr>, None) \<and>
   CollectMetrics (example_manager [(''test-datasource'', example_plugin\<lparr>IsDecommissioned := True\<rparr>)])
     ''test-datasource'' = (None, Some ErrPluginNotRegistered) \<and>
   CheckHealth (example_manager [(''test-datasource'', example_plugin\<lparr>IsDecommissioned := True\<rparr>)])
     example_context = (None, Some ErrPluginNotRegistered)"
  using C8_absent_plugin
    [of "example_manager [(''test-datasource'', example_plugin\<lparr>IsDecommissioned := True\<rparr>)]"
        "''test-datasource''" example_query example_context]
  by (simp add: example_manager_def example_plugin_def example_query_def example_context_def
      dsURL_of_def)

section \<open>Error normalization\<close>

text \<open>
  Claim C7, as the code has it. When the backend call of a registered plugin returns
  an error, \<^verbatim>\<open>QueryData\<close> and \<^verbatim>\<open>CheckHealth\<close> return the error itself if
  \<^verbatim>\<open>ErrMethodNotImplemented\<close> or \<^verbatim>\<open>ErrPluginUnavailable\<close> is in its chain. Every other
  error \<^verbatim>\<open>QueryData\<close> wraps with the message \<open>failed to query data\<close>;
  \<^verbatim>\<open>CheckHealth\<close> drops it and returns \<^verbatim>\<open>ErrHealthCheckFailed\<close> wrapped with the
  message \<open>failed to check plugin health\<close>.
\<close>

theorem C7_error_normalization:
  assumes "Plugin m (PluginID pCtx) = Some p"
  shows "(query_PluginContext req = pCtx \<and> call_QueryData p req = (resp, Some err) \<longrightarrow>
            QueryData m req =
              (None, Some (if errors_Is err ErrMethodNotImplemented \<or> errors_Is err ErrPluginUnavailable
                           then err else Wrap ''failed to query data'' err))) \<and>
         (requestValidator m (dsURL_of pCtx) = None \<and> call_CheckHealth p pCtx = (hresp, Some err) \<longrightarrow>
            CheckHealth m pCtx =
              (None, Some (if errors_Is err ErrMethodNotImplemented \<or> errors_Is err ErrPluginUnavailable
                           then err else Wrap ''failed to check plugin health'' ErrHealthCheckFailed)))"
  using assms by (auto simp: QueryData_def CheckHealth_def)

theorem C7_error_normalization_witness:
  "QueryData
     (example_manager [(''test-datasource'',
        example_plugin\<lparr>call_QueryData := (\<lambda>req. (None, Some (New ''connection refused'')))\<rparr>)])
     example_query = (None, Some (Wrap ''failed to query data'' (New ''connection refused''))) \<and>
   CheckHealth
     (example_manager [(''test-datasource'',
        example_plugin\<lparr>call_QueryData := (\<lambda>req. (None, Some (New ''connection refused''))),
                       call_CheckHealth := (\<lambda>pCtx. (None, Some ErrPluginUnavailable))\<rparr>)])
     example_context = (None, Some ErrPluginUnavailable)"
  using C7_error_normalization
    [of "example_manager [(''test-datasource'',
           example_plugin\<lparr>call_QueryData := (\<lambda>req. (None, Some (New ''connection refused''))),
                          call_CheckHealth := (\<lambda>pCtx. (None, Some ErrPluginUnavailable))\<rparr>)]"
        example_context
        "example_plugin\<lparr>call_QueryData := (\<lambda>req. (None, Some (New ''connection refused''))),
                          call_CheckHealth := (\<lambda>pCtx. (None, Some ErrPluginUnavailable))\<rparr>"
        example_query None "New ''connection refused''" None]
    C7_error_normalization
    [of "example_manager [(''test-datasource'',
           example_plugin\<lparr>call_QueryData := (\<lambda>req. (None, Some (New ''connection refused''))),
                          call_CheckHealth := (\<lambda>pCtx. (None, Some ErrPluginUnavailable))\<rparr>)]"
        example_context
        "example_plugin\<lparr>call_QueryData := (\<lambda>req. (None, Some (New ''connection refused''))),
                          call_CheckHealth := (\<lambda>pCtx. (None, Some ErrPluginUnavailable))\<rparr>"
        example_query None ErrPluginUnavailable None]
  by (simp add: example_manager_def example_plugin_def example_query_def example_context_def
      dsURL_of_def Plugin_def QueryData_def)

text \<open>
  The claim as the specification states it asks that \<^verbatim>\<open>CheckHealth\<close> wrap the
  underlying error. A health check that fails with \<open>connection refused\<close> returns an
  error whose chain does not hold \<open>connection refused\<close>.
\<close>

theorem C7_CheckHealth_drops_underlying_error:
  "snd (CheckHealth
     (example_manager [(''test-datasource'',
        example_plugin\<lparr>call_CheckHealth := (\<lambda>pCtx. (None, Some (New ''connection refused'')))\<rparr>)])
     example_context) = Some (Wrap ''failed to check plugin health'' ErrHealthCheckFailed) \<and>
   \<not> errors_Is (Wrap ''failed to check plugin health'' ErrHealthCheckFailed) (New ''connection refused'')"
  by (simp add: CheckHealth_def Plugin_def example_manager_def example_plugin_def
      example_context_def dsURL_of_def)

section \<open>Uninstall: the lookup and the directory check\<close>

text \<open>
  Claim C10. When the registry map holds a decommissioned handle for the id,
  \<^verbatim>\<open>Uninstall\<close> fails with \<^verbatim>\<open>ErrPluginNotInstalled\<close>: the manager is unchanged (the
  entry stays in the map) and neither a handle nor the installer is called.
\<close>

theorem C10_Uninstall_decommissioned:
  assumes "map_of (plugins m) pluginID = Some p" and "IsDecommissioned p"
  shows "Uninstall Rel m pluginID = (Some ErrPluginNotInstalled, m, [])"
proof -
  from assms have "Plugin m pluginID = None"
    by (rule Plugin_decommissioned)
  then show ?thesis
    by (simp add: Uninstall_def)
qed

theorem C10_Uninstall_decommissioned_witness:
  "Uninstall filepath_Rel
     (example_manager [(''test-datasource'', example_plugin\<lparr>IsDecommissioned := True\<rparr>)])
     ''test-datasource'' =
   (Some ErrPluginNotInstalled,
    example_manager [(''test-datasource'', example_plugin\<lparr>IsDecommissioned := True\<rparr>)], [])"
  using C10_Uninstall_decommissioned
    [of "example_manager [(''test-datasource'', example_plugin\<lparr>IsDecommissioned := True\<rparr>)]"
        "''test-datasource''" "example_plugin\<lparr>IsDecommissioned := True\<rparr>" filepath_Rel]
  by (simp add: example_manager_def example_plugin_def)

text \<open>
  The directory check rejects a handle whose relative path cannot be computed or starts
  with \<open>../\<close>: then nothing is called and the manager is unchanged.
\<close>

lemma Uninstall_outside:
  assumes "Plugin m pluginID = Some plugin" and "IsExternalPlugin plugin"
    and "(\<exists>err. Rel (Cfg_PluginsPath m) (PluginDir plugin) = Inl err) \<or>
         (\<exists>path. Rel (Cfg_PluginsPath m) (PluginDir plugin) = Inr path \<and> prefix ''../'' path)"
  shows "Uninstall Rel m pluginID = (Some ErrUninstallOutsideOfPluginDir, m, [])"
  using assms by (auto simp: Uninstall_def)

text \<open>
  The check lets the relative paths \<open>..\<close> and \<open>.\<close> through: neither starts with
  \<open>../\<close>. Whatever the directory, \<^verbatim>\<open>Uninstall\<close> then goes on to the installer.
\<close>

lemma Uninstall_not_rejected:
  assumes "Plugin m pluginID = Some plugin" and "IsExternalPlugin plugin"
    and "Rel (Cfg_PluginsPath m) (PluginDir plugin) = Inr path" and "\<not> prefix ''../'' path"
  shows "fst (Uninstall Rel m pluginID) \<noteq> Some ErrUninstallOutsideOfPluginDir \<or>
         (\<exists>e. fst (unregisterAndStop m plugin) = Some e) \<or>
         pluginInstaller_Uninstall m (PluginDir plugin) = Some ErrUninstallOutsideOfPluginDir"
  using assms
  by (auto simp: Uninstall_def unregisterAndStop_def Decommission_def
      split: option.splits prod.splits if_splits)

text \<open>
  Claim C3. A handle whose directory is not strictly inside the configured plugins
  directory is to be refused with \<^verbatim>\<open>ErrUninstallOutsideOfPluginDir\<close>, before anything
  is stopped or removed. With the plugins directory \<open>/var/lib/grafana/plugins\<close> and
  a handle whose directory is its parent \<open>/var/lib/grafana\<close>, the relative path is
  \<open>..\<close>; \<^verbatim>\<open>Uninstall\<close> decommissions and stops the handle, removes it from the
  map, hands \<open>/var/lib/grafana\<close> to the installer and returns no error.
\<close>

theorem C3_Uninstall_parent_directory:
  "filepath_Rel ''/var/lib/grafana/plugins'' ''/var/lib/grafana'' = Inr ''..'' \<and>
   Uninstall filepath_Rel
     (example_manager [(''test-datasource'', example_plugin\<lparr>PluginDir := ''/var/lib/grafana''\<rparr>)])
     ''test-datasource'' =
   (None, example_manager [],
    [Log_Debug ''Stopping plugin process'', Plugin_Decommission ''test-datasource'',
     Plugin_Stop ''test-datasource'', Log_Debug ''Plugin unregistered'',
     Installer_Uninstall ''/var/lib/grafana''])"
  by (simp add: Uninstall_def Plugin_def isRegistered_def unregisterAndStop_def Decommission_def
      store_handle_def example_manager_def example_plugin_def
      filepath_Rel_def clean_elements_def clean_element_def rooted_def)

section \<open>CallResource on an absent plugin\<close>

lemma handle_no_calls:
  "filter is_plugin_call (handleCallResourceError err) = [] \<and>
   filter is_validate (handleCallResourceError err) = []"
  by (simp add: handleCallResourceError_def)

text \<open>
  Claim C2, as the code has it. For a plugin id that is absent (not in the registry map,
  or in it with a decommissioned handle), \<^verbatim>\<open>callResourceInternal\<close> fails with
  \<^verbatim>\<open>ErrPluginNotRegistered\<close> and leaves the response writer as it was. \<^verbatim>\<open>CallResource\<close>
  calls the validator first, once: when it rejects, the answer is 403 \<open>Access denied\<close>;
  when it accepts and the URL parses, the answer is 500 \<open>Failed to call resource\<close> with
  \<^verbatim>\<open>ErrPluginNotRegistered\<close>. In every case no plugin call is made and nothing is
  written to the response writer.
\<close>

theorem C2_CallResource_absent_plugin:
  assumes "map_of (plugins m) (PluginID pCtx) = None \<or>
           (\<exists>p. map_of (plugins m) (PluginID pCtx) = Some p \<and> IsDecommissioned p)"
  shows "callResourceInternal m w req pCtx = (Some ErrPluginNotRegistered, w, []) \<and>
         snd (CallResource url_Parse m pCtx reqCtx path) = Resp reqCtx \<and>
         filter is_plugin_call (fst (CallResource url_Parse m pCtx reqCtx path)) = [] \<and>
         filter is_validate (fst (CallResource url_Parse m pCtx reqCtx path)) = [Validate (dsURL_of pCtx)] \<and>
         (requestValidator m (dsURL_of pCtx) = Some verr \<longrightarrow>
            fst (CallResource url_Parse m pCtx reqCtx path) =
              [Validate (dsURL_of pCtx), JsonApiErr 403 ''Access denied'' verr]) \<and>
         (requestValidator m (dsURL_of pCtx) = None \<and>
          url_Parse (if RawQuery (req_URL (Req reqCtx)) \<noteq> []
                     then path @ ''?'' @ RawQuery (req_URL (Req reqCtx)) else path) = Inr urlPath \<longrightarrow>
            fst (CallResource url_Parse m pCtx reqCtx path) =
              [Validate (dsURL_of pCtx), JsonApiErr 500 ''Failed to call resource'' ErrPluginNotRegistered])"
proof -
  from assms have absent: "Plugin m (PluginID pCtx) = None"
    by (simp add: Plugin_None_iff)
  then have internal: "\<And>w req. callResourceInternal m w req pCtx = (Some ErrPluginNotRegistered, w, [])"
    by (simp add: callResourceInternal_def)
  have writer: "snd (CallResource url_Parse m pCtx reqCtx path) = Resp reqCtx"
    by (simp add: CallResource_def Let_def internal split: option.splits sum.splits)
  have no_call: "filter is_plugin_call (fst (CallResource url_Parse m pCtx reqCtx path)) = []"
    by (simp add: CallResource_def Let_def internal handle_no_calls split: option.splits sum.splits)
  have validated: "filter is_validate (fst (CallResource url_Parse m pCtx reqCtx path)) = [Validate (dsURL_of pCtx)]"
    by (simp add: CallResource_def Let_def internal handle_no_calls split: option.splits sum.splits)
  have denied: "requestValidator m (dsURL_of pCtx) = Some verr \<longrightarrow>
            fst (CallResource url_Parse m pCtx reqCtx path) =
              [Validate (dsURL_of pCtx), JsonApiErr 403 ''Access denied'' verr]"
    by (simp add: CallResource_def Let_def)
  have accepted: "requestValidator m (dsURL_of pCtx) = None \<and>
          url_Parse (if RawQuery (req_URL (Req reqCtx)) \<noteq> []
                     then path @ ''?'' @ RawQuery (req_URL (Req reqCtx)) else path) = Inr urlPath \<longrightarrow>
            fst (CallResource url_Parse m pCtx reqCtx path) =
              [Validate (dsURL_of pCtx), JsonApiErr 500 ''Failed to call resource'' ErrPluginNotRegistered]"
    by (simp add: CallResource_def Let_def internal handleCallResourceError_def)
  from internal writer no_call validated denied accepted show ?thesis by blast
qed

theorem C2_CallResource_absent_plugin_witness:
  "callResourceInternal (example_manager []) example_writer (Req example_request) example_context =
     (Some ErrPluginNotRegistered, example_writer, []) \<and>
   CallResource example_url_Parse (example_manager []) example_context example_request ''/test'' =
     ([Validate [], JsonApiErr 500 ''Failed to call resource'' ErrPluginNotRegistered], example_writer)"
  using C2_CallResource_absent_plugin
    [of "example_manager []" example_context example_writer "Req example_request"
        example_url_Parse example_request "''/test''" "New ''denied''"
        "\<lparr>Path = ''/test'', RawQuery = [], url_String = ''/test''\<rparr>"]
  by (simp add: example_manager_def example_context_def example_request_def example_url_Parse_def
      dsURL_of_def prod_eq_iff)

text \<open>
  The claim as the specification states it has the call fail with
  \<^verbatim>\<open>ErrPluginNotRegistered\<close> without the validator being invoked. On the empty registry
  the validator is invoked before the lookup, and a validator that rejects the request
  makes the call end with 403 \<open>Access denied\<close>.
\<close>

theorem C2_validator_called_first:
  "Plugin (example_manager []) (PluginID example_context) = None \<and>
   fst (CallResource example_url_Parse (example_manager []) example_context example_request ''/test'') =
     [Validate [], JsonApiErr 500 ''Failed to call resource'' ErrPluginNotRegistered] \<and>
   fst (CallResource example_url_Parse
          ((example_manager [])\<lparr>requestValidator := (\<lambda>dsURL. Some (New ''denied''))\<rparr>)
          example_context example_request ''/test'') =
     [Validate [], JsonApiErr 403 ''Access denied'' (New ''denied'')]"
  by (simp add: CallResource_def callResourceInternal_def Plugin_def handleCallResourceError_def
      example_manager_def example_context_def example_request_def example_url_Parse_def dsURL_of_def)

section \<open>The relay: what is written, and how it ends\<close>























section \<open>The crash watch: restarts, decommission and cancellation\<close>

lemma restartKilledProcess_polling:
  "list_all keeps_polling pre \<Longrightarrow>
   fst (restartKilledProcess p (pre @ evs)) = fst (restartKilledProcess p evs) \<and>
   length (filter is_Start (snd (restartKilledProcess p (pre @ evs)))) =
     length (filter sees_exited pre) + length (filter is_Start (snd (restartKilledProcess p evs))) \<and>
   length (filter is_restart_failure (snd (restartKilledProcess p (pre @ evs)))) =
     length (filter start_fails pre) +
     length (filter is_restart_failure (snd (restartKilledProcess p evs)))"
proof (induction pre)
  case Nil
  show ?case by simp
next
  case (Cons ev pre)
  then show ?case
    by (cases ev) (auto split: prod.splits option.splits)
qed

text \<open>
  Claim C6. Let \<open>pre\<close> be ticks that all see the handle not decommissioned. After
  them the loop still waits; \<^verbatim>\<open>Start\<close> has been called once for each tick that saw the
  handle exited, and a failure is logged for each of those calls that failed. A tick that
  then sees the handle decommissioned makes the function return without error, and
  nothing that follows adds a call of \<^verbatim>\<open>Start\<close>. A context that is done makes it
  return without error when \<^verbatim>\<open>ctx.Err()\<close> is \<^verbatim>\<open>context.Canceled\<close> (or \<^verbatim>\<open>nil\<close>), and with
  that error otherwise.
\<close>

theorem C6_restartKilledProcess:
  assumes "list_all keeps_polling pre"
  shows "fst (restartKilledProcess p pre) = None \<and>
         length (filter is_Start (snd (restartKilledProcess p pre))) = length (filter sees_exited pre) \<and>
         length (filter is_restart_failure (snd (restartKilledProcess p pre))) =
           length (filter start_fails pre) \<and>
         fst (restartKilledProcess p (pre @ Tick True exited started # post)) = Some None \<and>
         length (filter is_Start (snd (restartKilledProcess p (pre @ Tick True exited started # post)))) =
           length (filter sees_exited pre) \<and>
         fst (restartKilledProcess p (pre @ Ctx_Done err # post)) =
           Some (case err of
                   None \<Rightarrow> None
                 | Some e \<Rightarrow> if errors_Is e Canceled then None else Some e) \<and>
         length (filter is_Start (snd (restartKilledProcess p (pre @ Ctx_Done err # post)))) =
           length (filter sees_exited pre)"
proof -
  have waits: "fst (restartKilledProcess p pre) = None \<and>
      length (filter is_Start (snd (restartKilledProcess p pre))) = length (filter sees_exited pre) \<and>
      length (filter is_restart_failure (snd (restartKilledProcess p pre))) =
        length (filter start_fails pre)"
    using restartKilledProcess_polling [OF assms, of p "[]"] by simp
  have decommissioned:
    "fst (restartKilledProcess p (pre @ Tick True exited started # post)) = Some None \<and>
     length (filter is_Start (snd (restartKilledProcess p (pre @ Tick True exited started # post)))) =
       length (filter sees_exited pre)"
    using restartKilledProcess_polling [OF assms, of p "Tick True exited started # post"] by simp
  have cancelled:
    "fst (restartKilledProcess p (pre @ Ctx_Done err # post)) =
       Some (case err of
               None \<Rightarrow> None
             | Some e \<Rightarrow> if errors_Is e Canceled then None else Some e) \<and>
     length (filter is_Start (snd (restartKilledProcess p (pre @ Ctx_Done err # post)))) =
       length (filter sees_exited pre)"
    using restartKilledProcess_polling [OF assms, of p "Ctx_Done err # post"]
    by (simp split: option.splits)
  from waits decommissioned cancelled show ?thesis by blast
qed

theorem C6_restartKilledProcess_witness:
  "restartKilledProcess example_plugin
     ([Tick False True None, Tick False False None, Tick False True (Some (New ''exec failed''))] @
      Tick True True None # [Tick False True None]) =
     (Some None,
      [Log_Debug ''Restarting plugin'', Plugin_Start ''test-datasource'', Log_Debug ''Plugin restarted'',
       Log_Debug ''Restarting plugin'', Plugin_Start ''test-datasource'',
       Log_Error ''Failed to restart plugin'' (New ''exec failed''),
       Log_Debug ''Plugin decommissioned'']) \<and>
   fst (restartKilledProcess example_plugin
     ([Tick False True None, Tick False False None, Tick False True (Some (New ''exec failed''))] @
      Ctx_Done (Some DeadlineExceeded) # [Tick False True None])) = Some (Some DeadlineExceeded)"
  using C6_restartKilledProcess
    [of "[Tick False True None, Tick False False None, Tick False True (Some (New ''exec failed''))]"
        example_plugin True None "[Tick False True None]" "Some DeadlineExceeded"]
  by (simp add: example_plugin_def)


section \<open>The contract of the stream\<close>

lemma stream_inv_new: "stream_inv (newCallResourceResponseStream ctx)"
  by (simp add: stream_inv_def newCallResourceResponseStream_def)

lemma stream_inv_Send: "stream_inv s \<Longrightarrow> stream_inv (snd (snd (Send ctx_first s res)))"
  by (auto simp: stream_inv_def Send_def)

lemma stream_inv_Recv: "stream_inv s \<Longrightarrow> stream_inv (snd (snd (Recv ctx_first s)))"
  by (auto simp: stream_inv_def Recv_def split: list.splits)

lemma stream_inv_Close: "stream_inv s \<Longrightarrow> stream_inv (snd (snd (Close s)))"
  by (auto simp: stream_inv_def Close_def)

lemma stream_inv_ctx_Done: "stream_inv s \<Longrightarrow> stream_inv (snd (ctx_Done err s))"
  by (auto simp: stream_inv_def ctx_Done_def)

lemma stream_inv_idle:
  "stream_inv s \<Longrightarrow> ctx_Err s \<noteq> None \<or> closed s \<Longrightarrow> senders s = [] \<and> receivers s = 0"
  by (auto simp: stream_inv_def)


lemma reachable_inv: "reachable s \<Longrightarrow> stream_inv s"
proof (induction rule: reachable.induct)
  case (new_stream ctx)
  show ?case by (rule stream_inv_new)
next
  case (after_Send s ctx_first res)
  then show ?case by (simp only: stream_inv_Send)
next
  case (after_Recv s ctx_first)
  then show ?case by (simp only: stream_inv_Recv)
next
  case (after_Close s)
  then show ?case by (simp only: stream_inv_Close)
next
  case (after_ctx_Done s err)
  then show ?case by (simp only: stream_inv_ctx_Done)
qed

text \<open>
  Claim C9, for every stream that the operations produce from a new stream.
  \<^verbatim>\<open>Send\<close> on a closed stream returns the error \<open>cannot send to a closed stream\<close>;
  on an open stream whose context is done it returns the error \<open>cancelled\<close>, and a
  \<^verbatim>\<open>Send\<close> that blocks returns \<open>cancelled\<close> when the context ends. \<^verbatim>\<open>Recv\<close> returns
  \<^verbatim>\<open>io.EOF\<close> on a closed channel whose context is not done, and the context's error
  when the context is done and the channel is open; when both hold it returns one of
  the two, as the \<^verbatim>\<open>select\<close> chooses. A \<^verbatim>\<open>Recv\<close> that blocks returns \<^verbatim>\<open>io.EOF\<close>
  when the stream is closed and the context's error when the context ends. A second
  \<^verbatim>\<open>Close\<close> returns the error \<open>cannot close a closed stream\<close>.
\<close>

theorem C9_stream_contract:
  assumes "reachable s"
  shows "(closed s \<longrightarrow>
            fst (Send ctx_first s res) = Returns (Some (New ''cannot send to a closed stream''))) \<and>
         (ctx_Err s \<noteq> None \<and> \<not> closed s \<longrightarrow>
            fst (Send ctx_first s res) = Returns (Some (New ''cancelled''))) \<and>
         (fst (Send ctx_first s res) = Blocks \<longrightarrow>
            Send_returns (Some (New ''cancelled'')) \<in>
              set (fst (ctx_Done err (snd (snd (Send ctx_first s res)))))) \<and>
         (closed s \<and> ctx_Err s = None \<longrightarrow> fst (Recv ctx_first s) = Returns (None, Some EOF)) \<and>
         (ctx_Err s = Some err \<and> \<not> closed s \<longrightarrow> fst (Recv ctx_first s) = Returns (None, Some err)) \<and>
         (ctx_Err s = Some err \<and> closed s \<longrightarrow>
            fst (Recv ctx_first s) = Returns (None, Some (if ctx_first then err else EOF))) \<and>
         (fst (Recv ctx_first s) = Blocks \<longrightarrow>
            Recv_returns None (Some EOF) \<in> set (fst (snd (Close (snd (snd (Recv ctx_first s)))))) \<and>
            Recv_returns None (Some err) \<in> set (fst (ctx_Done err (snd (snd (Recv ctx_first s)))))) \<and>
         fst (Close (snd (snd (Close s)))) = Some (New ''cannot close a closed stream'')"
proof -
  from assms have inv: "stream_inv s"
    by (rule reachable_inv)
  have idle: "ctx_Err s \<noteq> None \<or> closed s \<Longrightarrow> senders s = [] \<and> receivers s = 0"
    using inv by (rule stream_inv_idle)
  have send_closed: "closed s \<longrightarrow>
      fst (Send ctx_first s res) = Returns (Some (New ''cannot send to a closed stream''))"
    by (simp add: Send_def)
  have send_done: "ctx_Err s \<noteq> None \<and> \<not> closed s \<longrightarrow>
      fst (Send ctx_first s res) = Returns (Some (New ''cancelled''))"
    using idle by (auto simp: Send_def)
  have send_blocked: "fst (Send ctx_first s res) = Blocks \<longrightarrow>
      Send_returns (Some (New ''cancelled'')) \<in>
        set (fst (ctx_Done err (snd (snd (Send ctx_first s res)))))"
    by (auto simp: Send_def ctx_Done_def split: if_splits)
  have recv_closed: "closed s \<and> ctx_Err s = None \<longrightarrow> fst (Recv ctx_first s) = Returns (None, Some EOF)"
    using idle by (auto simp: Recv_def)
  have recv_done: "ctx_Err s = Some err \<and> \<not> closed s \<longrightarrow> fst (Recv ctx_first s) = Returns (None, Some err)"
    using idle by (auto simp: Recv_def)
  have recv_both: "ctx_Err s = Some err \<and> closed s \<longrightarrow>
      fst (Recv ctx_first s) = Returns (None, Some (if ctx_first then err else EOF))"
    using idle by (auto simp: Recv_def)
  have recv_blocked: "fst (Recv ctx_first s) = Blocks \<longrightarrow>
      Recv_returns None (Some EOF) \<in> set (fst (snd (Close (snd (snd (Recv ctx_first s)))))) \<and>
      Recv_returns None (Some err) \<in> set (fst (ctx_Done err (snd (snd (Recv ctx_first s)))))"
    by (auto simp: Recv_def Close_def ctx_Done_def split: if_splits list.splits)
  have close_twice: "fst (Close (snd (snd (Close s)))) = Some (New ''cannot close a closed stream'')"
    by (simp add: Close_def)
  show ?thesis
    by (intro conjI send_closed send_done send_blocked recv_closed recv_done recv_both
        recv_blocked close_twice)
qed

theorem C9_stream_contract_witness:
  "fst (Send False (snd (ctx_Done Canceled (newCallResourceResponseStream None)))
         \<lparr>Status = 200, Headers = None, Body = ''late''\<rparr>) =
     Returns (Some (New ''cancelled'')) \<and>
   fst (Recv False (snd (ctx_Done Canceled (newCallResourceResponseStream None)))) =
     Returns (None, Some Canceled) \<and>
   fst (Send False (snd (snd (Close (newCallResourceResponseStream None))))
         \<lparr>Status = 200, Headers = None, Body = ''late''\<rparr>) =
     Returns (Some (New ''cannot send to a closed stream'')) \<and>
   fst (Recv False (snd (snd (Close (newCallResourceResponseStream None))))) =
     Returns (None, Some EOF) \<and>
   fst (Close (snd (snd (Close (newCallResourceResponseStream None))))) =
     Some (New ''cannot close a closed stream'')"
proof -
  have done_stream: "reachable (snd (ctx_Done Canceled (newCallResourceResponseStream None)))"
    by (intro reachable.intros)
  have closed_stream: "reachable (snd (snd (Close (newCallResourceResponseStream None))))"
    by (intro reachable.intros)
  show ?thesis
    using C9_stream_contract
      [OF done_stream, of False "\<lparr>Status = 200, Headers = None, Body = ''late''\<rparr>" Canceled]
      C9_stream_contract
      [OF closed_stream, of False "\<lparr>Status = 200, Headers = None, Body = ''late''\<rparr>" Canceled]
    by (simp add: ctx_Done_def Close_def newCallResourceResponseStream_def)
qed


end
